theory Spec2Isabelle
  imports
    Main
    "HOL-Library.Word"
    "HOL-Library.Finite_Map"
    "HOL-Library.Char_ord"
    "HOL-Library.List_Lexorder"
begin

section \<open>Data model\<close>

text \<open>
  Go strings are byte sequences and \<open>len\<close> counts bytes; \<^typ>\<open>string\<close> is a list of
  8-bit characters, so \<^const>\<open>length\<close> on it is Go's \<open>len\<close>.  Byte slices are lists of
  8-bit words.
\<close>

type_synonym byte = "8 word"

text \<open>
  Modelled from the spec: the type \<open>DID\<close> of package \<open>did\<close> is not among the sources.
  Section 3 gives it a method, an id and an optional fragment; the commands read its fields
  \<open>Method\<close> and \<open>ID\<close> and assign \<open>Fragment\<close>.
\<close>

record DID =
  did_Method :: string
  did_ID :: string
  did_Fragment :: "string option"

text \<open>A point in time: nanoseconds since the Unix epoch, and the location it is shown in.\<close>

datatype Location = Local | UTC

record Time =
  unix_nano :: int
  location :: Location

text \<open>\<open>did.PublicKey\<close>, \<open>did.Service\<close>, \<open>did.Proof\<close> and \<open>did.Document\<close> of \<open>did/document.go\<close>.\<close>

record PublicKey =
  pk_ID :: string
  pk_Type :: string
  pk_Controller :: string
  pk_PublicKeyPEM :: string
  pk_PublicKeyJWK :: string
  pk_PublicKeyHex :: string
  pk_PublicKeyBase64 :: string
  pk_PublicKeyBase58 :: string
  pk_PublicKeyMultibase :: string

record Service =
  svc_ID :: string
  svc_Type :: string
  svc_ServiceEndpoint :: string

record DocProof =
  dp_Type :: string
  dp_Creator :: string
  dp_Created :: string
  dp_Domain :: string
  dp_Nonce :: string
  dp_SignatureValue :: string

text \<open>An element of \<open>Authentications\<close> is an embedded key or a string reference.\<close>

datatype Authentication = AuthKey PublicKey | AuthRef string

record Document =
  doc_Context :: string
  doc_ID :: string
  doc_PublicKeys :: "PublicKey list"
  doc_Authentications :: "Authentication list"
  doc_Services :: "Service list"
  doc_Created :: "Time option"
  doc_Updated :: "Time option"
  doc_Proof :: "DocProof option"

definition ContextV1 :: string where
  "ContextV1 = ''https://w3id.org/did/v1''"

definition NewDocument :: Document where
  "NewDocument =
     \<lparr>doc_Context = ContextV1, doc_ID = [], doc_PublicKeys = [], doc_Authentications = [],
      doc_Services = [], doc_Created = None, doc_Updated = None, doc_Proof = None\<rparr>"

section \<open>Identifier parser and formatter\<close>

text \<open>
  Modelled from the spec: \<open>did.Parse\<close> and \<open>(*DID).String\<close> of package \<open>did\<close> are not
  among the sources.  Section 4.1: an identifier is \<open>did:<method>:<id>\<close>, optionally
  followed by \<open>#<fragment>\<close>; the scheme is the literal \<open>did:\<close>, the method is not empty,
  the id is not empty and drawn from a safe character set.  The specification does not
  list that character set, so it is the parameter \<open>idchar\<close>.
\<close>

definition Parse :: "(char \<Rightarrow> bool) \<Rightarrow> string \<Rightarrow> DID option" where
  "Parse idchar s =
     (if take 4 s \<noteq> ''did:'' then None
      else
        let rest = drop 4 s;
            method = takeWhile (\<lambda>c. c \<noteq> CHR '':'') rest;
            after = dropWhile (\<lambda>c. c \<noteq> CHR '':'') rest
        in if method = [] \<or> after = [] then None
           else
             let body = drop 1 after;
                 ident = takeWhile (\<lambda>c. c \<noteq> CHR ''#'') body;
                 frag = dropWhile (\<lambda>c. c \<noteq> CHR ''#'') body
             in if ident = [] \<or> \<not> list_all idchar ident then None
                else Some \<lparr>did_Method = method, did_ID = ident,
                           did_Fragment = (if frag = [] then None else Some (drop 1 frag))\<rparr>)"

text \<open>
  Modelled from the spec: \<open>(*DID).String\<close>, the formatter, "the exact inverse" of the
  parser (section 4.1).
\<close>

definition String_DID :: "DID \<Rightarrow> string" where
  "String_DID d =
     ''did:'' @ did_Method d @ '':'' @ did_ID d @
     (case did_Fragment d of None \<Rightarrow> [] | Some f \<Rightarrow> CHR ''#'' # f)"

section \<open>Bytes, hexadecimal text and time\<close>

text \<open>\<open>[]byte(s)\<close>: the bytes of a Go string.\<close>

definition bytes_of :: "string \<Rightarrow> byte list" where
  "bytes_of s = map of_char s"

text \<open>
  The built-in \<open>copy(dst, src)\<close>: the first \<open>min(len(dst), len(src))\<close> elements of \<open>dst\<close>
  are overwritten, the rest are kept.
\<close>

definition copy_bytes :: "byte list \<Rightarrow> byte list \<Rightarrow> byte list" where
  "copy_bytes dst src = take (length dst) src @ drop (length src) dst"

text \<open>\<open>var idBytes32 [32]byte; copy(idBytes32[:], d.ID)\<close>, as all four registry callers write it.\<close>

definition idBytes32 :: "DID \<Rightarrow> byte list" where
  "idBytes32 d = copy_bytes (replicate 32 0) (bytes_of (did_ID d))"

text \<open>
  The digit table of \<open>encoding/hex\<close>, read at \<open>v >> 4\<close> and \<open>v & 0x0f\<close>, and the value of a
  digit, in either case.
\<close>

definition hexdigit :: "nat \<Rightarrow> char" where
  "hexdigit n = ''0123456789abcdef'' ! n"

definition fromHexChar :: "char \<Rightarrow> nat option" where
  "fromHexChar c =
     (let v = (of_char c :: nat)
      in if 48 \<le> v \<and> v \<le> 57 then Some (v - 48)
         else if 97 \<le> v \<and> v \<le> 102 then Some (v - 87)
         else if 65 \<le> v \<and> v \<le> 70 then Some (v - 55)
         else None)"

text \<open>\<open>common.Bytes2Hex\<close>: two digits for each byte, no prefix.\<close>

fun Bytes2Hex :: "byte list \<Rightarrow> string" where
  "Bytes2Hex [] = []"
| "Bytes2Hex (b # bs) = hexdigit (unat b div 16) # hexdigit (unat b mod 16) # Bytes2Hex bs"

text \<open>\<open>common.ToHex\<close>: the digits after \<open>0x\<close>, and \<open>0x0\<close> for no bytes.\<close>

definition ToHex :: "byte list \<Rightarrow> string" where
  "ToHex b = (let h = Bytes2Hex b in ''0x'' @ (if h = [] then ''0'' else h))"

text \<open>
  \<open>common.Hex2Bytes\<close> drops the decoder's error and keeps the bytes decoded before it:
  decoding stops at the first pair that is not two hexadecimal digits.
\<close>

fun Hex2Bytes :: "string \<Rightarrow> byte list" where
  "Hex2Bytes (p # q # cs) =
     (case fromHexChar p of
        None \<Rightarrow> []
      | Some a \<Rightarrow>
          (case fromHexChar q of
             None \<Rightarrow> []
           | Some b \<Rightarrow> word_of_nat (16 * a + b) # Hex2Bytes cs))"
| "Hex2Bytes cs = []"

text \<open>\<open>strings.TrimPrefix\<close> and \<open>strings.Join\<close>.\<close>

definition TrimPrefix :: "string \<Rightarrow> string \<Rightarrow> string" where
  "TrimPrefix s p = (if take (length p) s = p then drop (length p) s else s)"

fun Join :: "string list \<Rightarrow> string \<Rightarrow> string" where
  "Join [] sep = []"
| "Join [x] sep = x"
| "Join (x # y # ys) sep = x @ sep @ Join (y # ys) sep"

text \<open>
  \<open>t.UTC()\<close> keeps the instant and sets the location.  \<open>t.Truncate(d)\<close> rounds the instant
  down to a multiple of \<open>d\<close> nanoseconds since the zero time (1 January of year 1,
  \<open>unixToInternal\<close> seconds before the Unix epoch), and returns \<open>t\<close> unchanged for
  \<open>d \<le> 0\<close>.
\<close>

definition Second :: int where
  "Second = 1000000000"

definition unixToInternal :: int where
  "unixToInternal = 62135596800"

definition UTC_of :: "Time \<Rightarrow> Time" where
  "UTC_of t = t\<lparr>location := UTC\<rparr>"

definition Truncate :: "Time \<Rightarrow> int \<Rightarrow> Time" where
  "Truncate t d =
     (if d \<le> 0 then t
      else t\<lparr>unix_nano := unix_nano t - (unix_nano t + unixToInternal * Second) mod d\<rparr>)"

section \<open>Credentials\<close>

text \<open>
  What \<open>encoding/json\<close> puts into an \<open>interface{}\<close>: \<open>nil\<close>, \<open>bool\<close>, \<open>float64\<close> (kept as its
  64 bits), \<open>string\<close>, \<open>[]interface{}\<close> and \<open>map[string]interface{}\<close>.
\<close>

datatype json =
    JNull
  | JBool bool
  | JNumber "64 word"
  | JString string
  | JArray "json list"
  | JObject "(string, json) fmap"

text \<open>
  Modelled from the spec: the types \<open>Proof\<close> and \<open>VerifiableCredential\<close> of package \<open>vc\<close> are
  not among the sources.  The fields are those of section 3, which are the ones the commands
  read and assign; \<open>IssuanceDate\<close>, \<open>Created\<close> and \<open>Proof\<close> are pointers there and
  \<open>CredentialSubject\<close> is a map, and a \<open>nil\<close> pointer or map is \<^const>\<open>None\<close>.
\<close>

record VCProof =
  vp_Type :: string
  vp_Created :: "Time option"
  vp_ProofValue :: string

record VerifiableCredential =
  vc_ID :: string
  vc_Type :: "string list"
  vc_Issuer :: string
  vc_IssuanceDate :: "Time option"
  vc_CredentialSubject :: "(string, json) fmap option"
  vc_Proof :: "VCProof option"

text \<open>
  Modelled from the spec: \<open>vc.NewVerifiableCredential\<close> is not among the sources.  Section
  4.6 assembles the credential "with proof = none"; every other field is set by the
  issuer.  The types a fresh credential starts with are not given, so they are the
  parameter \<open>base_types\<close>.
\<close>

definition NewVerifiableCredential :: "string list \<Rightarrow> VerifiableCredential" where
  "NewVerifiableCredential base_types =
     \<lparr>vc_ID = [], vc_Type = base_types, vc_Issuer = [], vc_IssuanceDate = None,
      vc_CredentialSubject = None, vc_Proof = None\<rparr>"

section \<open>Failures, network events and the environment\<close>

text \<open>
  Every \<open>log.Fatal\<close>, error return, \<open>os.Exit\<close> and run-time panic of the commands is a
  value of \<open>failure\<close>.
\<close>

datatype failure =
    RegistryAddressRequired
  | DIDRequired
  | InvalidDID
  | OnlyGoMethods
  | IDTooLong
  | CannotParsePrivateKey
  | MarshalFailed
  | UploadFailed
  | DialFailed
  | CannotInitializeABI
  | CannotRegister
  | CannotGetReceipt
  | CannotCallContract
  | UnableToFetch
  | UnableToDecodeDocument
  | CredentialIDRequired
  | CredentialTypeRequired
  | IssuerRequired
  | InvalidIssuer
  | SubjectRequired
  | InvalidSubject
  | CannotParseSubject
  | CannotMarshalCredential
  | CannotSign
  | CannotReadFile
  | CannotDecodeCredential
  | CannotReadIssuerDocument failure
  | CannotHashClaim
  | NotVerified
  | PanicNilMap
  | PanicSliceBounds
  | PanicNilPointer

text \<open>The calls that leave the process, in the order they are made.\<close>

datatype event =
    EvUpload string "byte list"
  | EvDial string
  | EvTransact string string string "byte list" string
  | EvWaitForReceipt string
  | EvCallConstant string string "byte list"
  | EvHttpGet string

type_synonym 'a io = "event list \<times> (failure + 'a)"

definition io_bind :: "'a io \<Rightarrow> ('a \<Rightarrow> 'b io) \<Rightarrow> 'b io" where
  "io_bind m f =
     (case m of
        (t, Inl e) \<Rightarrow> (t, Inl e)
      | (t, Inr x) \<Rightarrow> (case f x of (t', r) \<Rightarrow> (t @ t', r)))"

text \<open>A call that leaves the process: the event, and the answer or the failure.\<close>

definition call :: "event \<Rightarrow> failure \<Rightarrow> 'a option \<Rightarrow> 'a io" where
  "call ev e r = ([ev], case r of None \<Rightarrow> Inl e | Some x \<Rightarrow> Inr x)"

text \<open>A local step that can fail.\<close>

definition local_step :: "failure \<Rightarrow> 'a option \<Rightarrow> 'a io" where
  "local_step e r = ([], case r of None \<Rightarrow> Inl e | Some x \<Rightarrow> Inr x)"

text \<open>
  The libraries and services the commands call, as functions of what the commands pass
  to them: \<^const>\<open>None\<close> (or \<^const>\<open>False\<close>) is the error return.  A private key is
  its bytes.  \<open>env_idchar\<close> is the character set of \<^const>\<open>Parse\<close>, \<open>env_base_types\<close> the
  parameter of \<^const>\<open>NewVerifiableCredential\<close>.  \<open>map_range\<close> is the order in which
  \<open>for k := range m\<close> visits the keys of a map, which Go leaves open.
\<close>

record env =
  env_idchar :: "char \<Rightarrow> bool"
  env_base_types :: "string list"
  ParsePrivateKey :: "string \<Rightarrow> byte list option"
  FromECDSAPub :: "byte list \<Rightarrow> byte list"
  MarshalIndent_Document :: "Document \<Rightarrow> byte list option"
  ipfs_add :: "string \<Rightarrow> byte list \<Rightarrow> string option"
  Dial :: "string \<Rightarrow> bool"
  DIDRegistryABI :: bool
  CallTransactFunction :: "string \<Rightarrow> string \<Rightarrow> string \<Rightarrow> byte list \<Rightarrow> string \<Rightarrow> string option"
  WaitForReceipt :: "string \<Rightarrow> string option"
  CallConstantFunction :: "string \<Rightarrow> string \<Rightarrow> byte list \<Rightarrow> string option"
  http_Get :: "string \<Rightarrow> byte list option"
  Decode_Document :: "byte list \<Rightarrow> Document option"
  Unmarshal_subject :: "string \<Rightarrow> (string, json) fmap option option"
  Encode_Credential :: "VerifiableCredential \<Rightarrow> byte list option"
  Keccak256 :: "byte list \<Rightarrow> byte list"
  Sign :: "byte list \<Rightarrow> byte list \<Rightarrow> byte list option"
  MarshalIndent_Credential :: "VerifiableCredential \<Rightarrow> byte list option"
  ReadFile :: "string \<Rightarrow> byte list option"
  Unmarshal_Credential :: "byte list \<Rightarrow> VerifiableCredential option"
  VerifySignature :: "byte list \<Rightarrow> byte list \<Rightarrow> byte list \<Rightarrow> bool"
  map_range :: "(string, json) fmap \<Rightarrow> string list"

section \<open>Registering and resolving documents\<close>

definition MaxDIDLength :: nat where
  "MaxDIDLength = 32"

text \<open>
  The document that \<open>CreateDID\<close> builds from the parsed identifier \<open>d\<close>, the bytes of the
  owner's public key and the current time.
\<close>

definition CreateDID_document :: "DID \<Rightarrow> byte list \<Rightarrow> Time \<Rightarrow> Document" where
  "CreateDID_document d publicKey now =
     (let publicKeyID = d\<lparr>did_Fragment := Some ''owner''\<rparr>
      in NewDocument
           \<lparr>doc_ID := String_DID d,
            doc_Created := Some now,
            doc_Updated := Some now,
            doc_PublicKeys :=
              [\<lparr>pk_ID = String_DID publicKeyID,
                pk_Type = ''Secp256k1VerificationKey2018'',
                pk_Controller = String_DID d,
                pk_PublicKeyPEM = [], pk_PublicKeyJWK = [],
                pk_PublicKeyHex = ToHex publicKey,
                pk_PublicKeyBase64 = [], pk_PublicKeyBase58 = [], pk_PublicKeyMultibase = []\<rparr>],
            doc_Authentications := [AuthRef (String_DID publicKeyID)]\<rparr>)"

text \<open>\<open>IPFSUpload\<close> posts the data to the content store and returns the hash it answers.\<close>

definition IPFSUpload :: "env \<Rightarrow> string \<Rightarrow> byte list \<Rightarrow> string io" where
  "IPFSUpload env name data = call (EvUpload name data) UploadFailed (ipfs_add env name data)"

text \<open>\<open>web3.Dial\<close> followed by \<open>abi.JSON\<close> of the registry's interface.\<close>

definition connect :: "env \<Rightarrow> string \<Rightarrow> unit io" where
  "connect env rpcURL =
     io_bind (call (EvDial rpcURL) DialFailed (if Dial env rpcURL then Some () else None))
       (\<lambda>_. local_step CannotInitializeABI (if DIDRegistryABI env then Some () else None))"

text \<open>
  \<open>CreateDID\<close>; on success it prints the identifier, the content hash and the hash of the
  registering transaction.  \<open>now\<close> is the \<open>time.Now()\<close> it reads.
\<close>

definition CreateDID ::
  "env \<Rightarrow> string \<Rightarrow> string \<Rightarrow> string \<Rightarrow> string \<Rightarrow> Time \<Rightarrow> (string \<times> string \<times> string) io" where
  "CreateDID env rpcURL privateKey id' registryAddress now =
     (if registryAddress = [] then ([], Inl RegistryAddressRequired)
      else if id' = [] then ([], Inl DIDRequired)
      else
        case Parse (env_idchar env) id' of
          None \<Rightarrow> ([], Inl InvalidDID)
        | Some d \<Rightarrow>
            if did_Method d \<noteq> ''go'' then ([], Inl OnlyGoMethods)
            else if length id' > MaxDIDLength then ([], Inl IDTooLong)
            else
              case ParsePrivateKey env privateKey of
                None \<Rightarrow> ([], Inl CannotParsePrivateKey)
              | Some acc \<Rightarrow>
                  let doc = CreateDID_document d (FromECDSAPub env acc) now
                  in io_bind (local_step MarshalFailed (MarshalIndent_Document env doc)) (\<lambda>data.
                     io_bind (IPFSUpload env ''did.json'' data) (\<lambda>hash.
                     io_bind (connect env rpcURL) (\<lambda>_.
                     io_bind (call (EvTransact registryAddress privateKey ''register'' (idBytes32 d) hash)
                                CannotRegister
                                (CallTransactFunction env registryAddress privateKey ''register''
                                   (idBytes32 d) hash)) (\<lambda>tx.
                     io_bind (call (EvWaitForReceipt tx) CannotGetReceipt (WaitForReceipt env tx)) (\<lambda>receipt.
                     ([], Inr (String_DID d, hash, receipt))))))))"

text \<open>\<open>DIDOwner\<close> and \<open>DIDHash\<close> print what the registry answers.\<close>

definition DIDOwner :: "env \<Rightarrow> string \<Rightarrow> string \<Rightarrow> string \<Rightarrow> string \<Rightarrow> string io" where
  "DIDOwner env rpcURL privateKey id' registryAddress =
     (if registryAddress = [] then ([], Inl RegistryAddressRequired)
      else
        case Parse (env_idchar env) id' of
          None \<Rightarrow> ([], Inl InvalidDID)
        | Some d \<Rightarrow>
            io_bind (connect env rpcURL) (\<lambda>_.
              call (EvCallConstant registryAddress ''owner'' (idBytes32 d)) CannotCallContract
                (CallConstantFunction env registryAddress ''owner'' (idBytes32 d))))"

definition DIDHash :: "env \<Rightarrow> string \<Rightarrow> string \<Rightarrow> string \<Rightarrow> string \<Rightarrow> string io" where
  "DIDHash env rpcURL privateKey id' registryAddress =
     (if registryAddress = [] then ([], Inl RegistryAddressRequired)
      else
        case Parse (env_idchar env) id' of
          None \<Rightarrow> ([], Inl InvalidDID)
        | Some d \<Rightarrow>
            io_bind (connect env rpcURL) (\<lambda>_.
              call (EvCallConstant registryAddress ''hash'' (idBytes32 d)) CannotCallContract
                (CallConstantFunction env registryAddress ''hash'' (idBytes32 d))))"

text \<open>\<open>readDIDDocument\<close>: the registry's hash for the identifier, then the content behind it.\<close>

definition readDIDDocument :: "env \<Rightarrow> string \<Rightarrow> string \<Rightarrow> string \<Rightarrow> Document io" where
  "readDIDDocument env rpcURL registryAddress id' =
     (if registryAddress = [] then ([], Inl RegistryAddressRequired)
      else
        case Parse (env_idchar env) id' of
          None \<Rightarrow> ([], Inl InvalidDID)
        | Some d \<Rightarrow>
            io_bind (connect env rpcURL) (\<lambda>_.
            io_bind (call (EvCallConstant registryAddress ''hash'' (idBytes32 d)) CannotCallContract
                       (CallConstantFunction env registryAddress ''hash'' (idBytes32 d))) (\<lambda>hash.
            let url = ''https://ipfs.infura.io:5001/api/v0/cat?arg='' @ hash
            in io_bind (call (EvHttpGet url) UnableToFetch (http_Get env url)) (\<lambda>body.
               local_step UnableToDecodeDocument (Decode_Document env body)))))"

definition ShowDID :: "env \<Rightarrow> string \<Rightarrow> string \<Rightarrow> string \<Rightarrow> string \<Rightarrow> byte list io" where
  "ShowDID env rpcURL privateKey id' registryAddress =
     io_bind (readDIDDocument env rpcURL registryAddress id') (\<lambda>doc.
       local_step MarshalFailed (MarshalIndent_Document env doc))"

section \<open>Issuing and verifying credentials\<close>

text \<open>
  The digest \<open>SignClaim\<close> signs: the credential as it stands before the proof is added is
  encoded as JSON into the Keccak-256 hasher.
\<close>

definition SignClaim_digest :: "env \<Rightarrow> VerifiableCredential \<Rightarrow> byte list option" where
  "SignClaim_digest env cred = map_option (Keccak256 env) (Encode_Credential env cred)"

text \<open>
  \<open>SignClaim\<close>; on success it prints the signed credential, returned here with the bytes
  printed.  Decoding the JSON text \<open>null\<close> leaves the subject map \<open>nil\<close>, and storing into
  a \<open>nil\<close> map panics; so does slicing one byte off an empty signature.
\<close>

definition SignClaim ::
  "env \<Rightarrow> string \<Rightarrow> string \<Rightarrow> string \<Rightarrow> string \<Rightarrow> string \<Rightarrow> string \<Rightarrow> string \<Rightarrow> Time \<Rightarrow>
   failure + (VerifiableCredential \<times> byte list)" where
  "SignClaim env rpcURL privateKey id' typ issuerID subjectID subjectJSON time_Now =
     (if id' = [] then Inl CredentialIDRequired
      else if typ = [] then Inl CredentialTypeRequired
      else if issuerID = [] then Inl IssuerRequired
      else if Parse (env_idchar env) issuerID = None then Inl InvalidIssuer
      else if subjectID = [] then Inl SubjectRequired
      else if Parse (env_idchar env) subjectID = None then Inl InvalidSubject
      else
        case ParsePrivateKey env privateKey of
          None \<Rightarrow> Inl CannotParsePrivateKey
        | Some acc \<Rightarrow>
            (case (if subjectJSON \<noteq> [] then Unmarshal_subject env subjectJSON
                   else Some (Some fmempty)) of
               None \<Rightarrow> Inl CannotParseSubject
             | Some None \<Rightarrow> Inl PanicNilMap
             | Some (Some parsed) \<Rightarrow>
                 let subject = fmupd ''id'' (JString subjectID) parsed;
                     now = Truncate (UTC_of time_Now) (1 * Second);
                     new = NewVerifiableCredential (env_base_types env);
                     cred = new\<lparr>vc_ID := id',
                                vc_Type := vc_Type new @ [typ],
                                vc_Issuer := issuerID,
                                vc_IssuanceDate := Some now,
                                vc_CredentialSubject := Some subject\<rparr>
                 in case SignClaim_digest env cred of
                      None \<Rightarrow> Inl CannotMarshalCredential
                    | Some h \<Rightarrow>
                        (case Sign env h acc of
                           None \<Rightarrow> Inl CannotSign
                         | Some sig \<Rightarrow>
                             if sig = [] then Inl PanicSliceBounds
                             else
                               let proofValue = take (length sig - 1) sig;
                                   signed = cred\<lparr>vc_Proof :=
                                     Some \<lparr>vp_Type = ''Secp256k1VerificationKey2018'',
                                           vp_Created = Some now,
                                           vp_ProofValue = Bytes2Hex proofValue\<rparr>\<rparr>
                               in case MarshalIndent_Credential env signed of
                                    None \<Rightarrow> Inl MarshalFailed
                                  | Some output \<Rightarrow> Inr (signed, output))))"

text \<open>
  The loop of \<open>VerifyClaim\<close> over the issuer's keys: \<^term>\<open>Inr True\<close> is the \<open>break\<close> with
  \<open>verified\<close> set, \<^term>\<open>Inr False\<close> the end of the keys.  \<open>cred.Proof.ProofValue\<close> is read
  for each key of the supported type, and panics when the credential has no proof.
\<close>

fun verify_keys :: "env \<Rightarrow> byte list \<Rightarrow> VCProof option \<Rightarrow> PublicKey list \<Rightarrow> failure + bool" where
  "verify_keys env h prf [] = Inr False"
| "verify_keys env h prf (pub # pubs) =
     (if pk_Type pub \<noteq> ''Secp256k1VerificationKey2018'' then verify_keys env h prf pubs
      else
        let pubkey = Hex2Bytes (TrimPrefix (pk_PublicKeyHex pub) ''0x'')
        in case prf of
             None \<Rightarrow> Inl PanicNilPointer
           | Some p \<Rightarrow>
               if VerifySignature env pubkey h (Hex2Bytes (vp_ProofValue p)) then Inr True
               else verify_keys env h prf pubs)"

text \<open>What \<open>VerifyClaim\<close> prints for a verified credential.\<close>

record Report =
  rep_ID :: string
  rep_Type :: string
  rep_Subject :: "json option"
  rep_Issuer :: string
  rep_IssuedOn :: "Time option"
  rep_Claims :: "(string \<times> json option) list"

definition VerifyClaim_report :: "env \<Rightarrow> VerifiableCredential \<Rightarrow> Report" where
  "VerifyClaim_report env cred =
     (let subject = (case vc_CredentialSubject cred of None \<Rightarrow> fmempty | Some m \<Rightarrow> m);
          subjectID = fmlookup subject ''id'';
          subject = fmdrop ''id'' subject;
          keys = sort (map_range env subject)
      in \<lparr>rep_ID = vc_ID cred,
          rep_Type = Join (vc_Type cred) '', '',
          rep_Subject = subjectID,
          rep_Issuer = vc_Issuer cred,
          rep_IssuedOn = vc_IssuanceDate cred,
          rep_Claims = map (\<lambda>k. (k, fmlookup subject k)) keys\<rparr>)"

text \<open>The digest \<open>VerifyClaim\<close> computes: over the credential with its proof cleared.\<close>

definition VerifyClaim_digest :: "env \<Rightarrow> VerifiableCredential \<Rightarrow> byte list option" where
  "VerifyClaim_digest env cred =
     (let other = cred\<lparr>vc_Proof := None\<rparr>
      in map_option (Keccak256 env) (Encode_Credential env other))"

text \<open>\<open>VerifyClaim\<close> from the decoded credential on.\<close>

definition VerifyClaim_decoded ::
  "env \<Rightarrow> string \<Rightarrow> string \<Rightarrow> VerifiableCredential \<Rightarrow> Report io" where
  "VerifyClaim_decoded env rpcURL registryAddress cred =
     (case readDIDDocument env rpcURL registryAddress (vc_Issuer cred) of
        (t, Inl e) \<Rightarrow> (t, Inl (CannotReadIssuerDocument e))
      | (t, Inr doc) \<Rightarrow>
          (t, case VerifyClaim_digest env cred of
                None \<Rightarrow> Inl CannotHashClaim
              | Some h \<Rightarrow>
                  (case verify_keys env h (vc_Proof cred) (doc_PublicKeys doc) of
                     Inl e \<Rightarrow> Inl e
                   | Inr verified \<Rightarrow>
                       if \<not> verified then Inl NotVerified
                       else Inr (VerifyClaim_report env cred))))"


section \<open>A concrete environment\<close>

text \<open>
  A small environment in which every operation can be run: the digest is the identity,
  a signature is the key followed by the digest and a recovery byte, and a signature
  verifies when it is the public key followed by the digest.  Its JSON decoder reads the
  numbers \<open>21\<close> and \<open>21.0\<close> as the same value, as \<open>encoding/json\<close> does.  It shows that
  the hypotheses of the theorems below can be met.
\<close>

definition test_now :: Time where
  "test_now = \<lparr>unix_nano = 1500000000123456789, location = Local\<rparr>"

definition test_subject :: "(string, json) fmap" where
  "test_subject = fmupd ''id'' (JString ''did:go:subj1'') (fmupd ''age'' (JNumber 0x4035000000000000) fmempty)"

definition test_unsigned :: VerifiableCredential where
  "test_unsigned =
     \<lparr>vc_ID = ''urn:1'', vc_Type = [''VerifiableCredential'', ''ProofOfAge''],
      vc_Issuer = ''did:go:issuer1'',
      vc_IssuanceDate = Some \<lparr>unix_nano = 1500000000000000000, location = UTC\<rparr>,
      vc_CredentialSubject = Some test_subject,
      vc_Proof = None\<rparr>"

definition test_signed :: VerifiableCredential where
  "test_signed =
     test_unsigned\<lparr>vc_Proof :=
       Some \<lparr>vp_Type = ''Secp256k1VerificationKey2018'',
             vp_Created = Some \<lparr>unix_nano = 1500000000000000000, location = UTC\<rparr>,
             vp_ProofValue = ''0701''\<rparr>\<rparr>"

text \<open>
  The issued credential with another age, and the text of a credential file in which only
  the age, inside \<open>credentialSubject\<close>, is left open.
\<close>

definition test_tampered :: VerifiableCredential where
  "test_tampered =
     test_signed\<lparr>vc_CredentialSubject :=
       Some (fmupd ''age'' (JNumber 0x4059000000000000) test_subject)\<rparr>"

definition test_file :: "string \<Rightarrow> byte list" where
  "test_file age =
     bytes_of
       (''{\"id\":\"urn:1\",\"type\":[\"VerifiableCredential\",\"ProofOfAge\"],''
        @ ''\"issuer\":\"did:go:issuer1\",\"issuanceDate\":\"2017-07-14T02:40:00Z\",''
        @ ''\"credentialSubject\":{\"age\":'' @ age @ '',\"id\":\"did:go:subj1\"},''
        @ ''\"proof\":{\"type\":\"Secp256k1VerificationKey2018\",''
        @ ''\"created\":\"2017-07-14T02:40:00Z\",\"proofValue\":\"0701\"}}'')"

definition test_issuer :: DID where
  "test_issuer = \<lparr>did_Method = ''go'', did_ID = ''issuer1'', did_Fragment = None\<rparr>"

definition test_doc :: Document where
  "test_doc = CreateDID_document test_issuer [7] test_now"

definition test_env :: env where
  "test_env =
     \<lparr>env_idchar = (\<lambda>c. c \<in> set ''abcdefghijklmnopqrstuvwxyz0123456789''),
      env_base_types = [''VerifiableCredential''],
      ParsePrivateKey = (\<lambda>s. if s = [] then None else Some (Hex2Bytes s)),
      FromECDSAPub = (\<lambda>key. key),
      MarshalIndent_Document = (\<lambda>doc. Some (bytes_of (doc_ID doc))),
      ipfs_add = (\<lambda>name data. Some ''QmHash''),
      Dial = (\<lambda>url. url \<noteq> []),
      DIDRegistryABI = True,
      CallTransactFunction = (\<lambda>address key name id32 hash. Some ''0xtx''),
      WaitForReceipt = (\<lambda>tx. Some tx),
      CallConstantFunction = (\<lambda>address name id32. Some ''QmHash''),
      http_Get = (\<lambda>url. Some (bytes_of url)),
      Decode_Document = (\<lambda>body. Some test_doc),
      Unmarshal_subject =
        (\<lambda>s. if s = ''null'' then Some None
             else Some (Some (fmupd ''age'' (JNumber 0x4035000000000000) fmempty))),
      Encode_Credential = (\<lambda>cred. if cred = test_unsigned then Some [1] else Some [2]),
      Keccak256 = (\<lambda>pre. pre),
      Sign = (\<lambda>h key. Some (key @ h @ [0])),
      MarshalIndent_Credential =
        (\<lambda>cred. if cred = test_signed then Some (test_file ''21'')
                else Some (bytes_of (vc_ID cred))),
      ReadFile =
        (\<lambda>name. if name = ''credential.json'' then Some (test_file ''21'')
                else if name = ''mutated.json'' then Some (test_file ''21.0'')
                else if name = ''tampered.json'' then Some (test_file ''100'')
                else None),
      Unmarshal_Credential =
        (\<lambda>buf. if buf = test_file ''21'' \<or> buf = test_file ''21.0'' then Some test_signed
               else if buf = test_file ''100'' then Some test_tampered
               else None),
      VerifySignature = (\<lambda>pubkey h sig. sig = pubkey @ h),
      map_range = (\<lambda>m. rev (sorted_list_of_fset (fmdom m)))\<rparr>"

text \<open>A credential with no subject, signed in this environment.\<close>

definition test_bare :: VerifiableCredential where
  "test_bare =
     test_unsigned\<lparr>vc_CredentialSubject := None,
       vc_Proof := Some \<lparr>vp_Type = ''Secp256k1VerificationKey2018'', vp_Created = None,
                        vp_ProofValue = ''0702''\<rparr>\<rparr>"

section \<open>Observing the registry calls\<close>

text \<open>The 32-byte key of a registry call, and the keys of all registry calls of a run.\<close>

definition key_of_event :: "event \<Rightarrow> byte list option" where
  "key_of_event ev =
     (case ev of
        EvTransact address key name id32 hash \<Rightarrow> Some id32
      | EvCallConstant address name id32 \<Rightarrow> Some id32
      | _ \<Rightarrow> None)"

definition registry_events :: "event list \<Rightarrow> byte list list" where
  "registry_events t = List.map_filter key_of_event t"

section \<open>Basic facts\<close>

lemma io_bind_Inl [simp]: "io_bind (t, Inl e) f = (t, Inl e)"
  by (simp add: io_bind_def)

lemma io_bind_Inr [simp]: "io_bind (t, Inr x) f = (t @ fst (f x), snd (f x))"
  by (simp add: io_bind_def split: prod.splits)

lemma connect_cases:
  "connect env rpcURL =
     (if \<not> Dial env rpcURL then ([EvDial rpcURL], Inl DialFailed)
      else if \<not> DIDRegistryABI env then ([EvDial rpcURL], Inl CannotInitializeABI)
      else ([EvDial rpcURL], Inr ()))"
  by (simp add: connect_def call_def local_step_def)

lemma registry_events_append:
  "registry_events (t @ t') = registry_events t @ registry_events t'"
  by (induction t) (simp_all add: registry_events_def map_filter_simps split: option.splits)

lemma registry_events_simps:
  "registry_events [] = []"
  "registry_events (EvUpload name data # t) = registry_events t"
  "registry_events (EvDial url # t) = registry_events t"
  "registry_events (EvTransact address key fn id32 hash # t) = id32 # registry_events t"
  "registry_events (EvWaitForReceipt tx # t) = registry_events t"
  "registry_events (EvCallConstant address fn id32 # t) = id32 # registry_events t"
  "registry_events (EvHttpGet url # t) = registry_events t"
  by (simp_all add: registry_events_def key_of_event_def map_filter_simps)

lemma copy_bytes_replicate:
  "copy_bytes (replicate n z) src = take n src @ replicate (n - length src) z"
  by (simp add: copy_bytes_def)

lemma idBytes32_eq:
  "idBytes32 d = take 32 (bytes_of (did_ID d)) @ replicate (32 - length (did_ID d)) 0"
  by (simp add: idBytes32_def copy_bytes_replicate bytes_of_def)

lemma idBytes32_length: "length (idBytes32 d) = 32"
  by (simp add: idBytes32_eq bytes_of_def)

lemma hex_digits_table: "list_all (\<lambda>n. fromHexChar (hexdigit n) = Some n) [0..<16]"
  by code_simp

lemma hex_roundtrip_digit:
  assumes "n < 16"
  shows "fromHexChar (hexdigit n) = Some n"
proof -
  from assms have "n \<in> set [0..<16]"
    by simp
  with hex_digits_table show ?thesis
    unfolding list_all_iff by blast
qed

lemma byte_split: "word_of_nat (16 * (unat b div 16) + unat b mod 16) = (b :: byte)"
  by simp

lemma Hex2Bytes_Bytes2Hex [simp]: "Hex2Bytes (Bytes2Hex bs) = bs"
proof (induction bs)
  case Nil
  show ?case by simp
next
  case (Cons b bs)
  have "unat b < 256"
    using unsigned_less [of b, where 'a = nat] by simp
  then have "unat b div 16 < 16" "unat b mod 16 < 16"
    by simp_all
  then show ?case
    using Cons by (simp add: hex_roundtrip_digit byte_split del: of_nat_add of_nat_mult)
qed

lemma Truncate_Second_nano:
  "unix_nano (Truncate (UTC_of t) Second) = unix_nano t - unix_nano t mod Second"
proof -
  have "(unix_nano t + unixToInternal * Second) mod Second = unix_nano t mod Second"
    by (rule mod_mult_self1)
  moreover have "\<not> Second \<le> 0"
    by (simp add: Second_def)
  ultimately show ?thesis
    by (simp add: Truncate_def UTC_of_def)
qed

lemma Truncate_Second:
  "location (Truncate (UTC_of t) Second) = UTC"
  "unix_nano (Truncate (UTC_of t) Second) mod 1000000000 = 0"
  "unix_nano (Truncate (UTC_of t) Second) \<le> unix_nano t"
  "unix_nano t < unix_nano (Truncate (UTC_of t) Second) + 1000000000"
proof -
  have nano: "unix_nano (Truncate (UTC_of t) Second) = unix_nano t - unix_nano t mod 1000000000"
    unfolding Truncate_Second_nano by (simp add: Second_def)
  show "location (Truncate (UTC_of t) Second) = UTC"
    by (simp add: Truncate_def UTC_of_def)
  show "unix_nano (Truncate (UTC_of t) Second) mod 1000000000 = 0"
    unfolding nano by simp
  show "unix_nano (Truncate (UTC_of t) Second) \<le> unix_nano t"
    unfolding nano by simp
  show "unix_nano t < unix_nano (Truncate (UTC_of t) Second) + 1000000000"
    unfolding nano by simp
qed

section \<open>The identifier\<close>

lemma dropWhile_hd_tl:
  assumes "dropWhile P xs \<noteq> []"
  shows "dropWhile P xs = hd (dropWhile P xs) # drop 1 (dropWhile P xs)"
    and "\<not> P (hd (dropWhile P xs))"
  using assms by (simp_all add: drop_Suc hd_dropWhile)

lemma Parse_SomeD:
  assumes "Parse idchar s = Some d"
  shows "take 4 s = ''did:''"
    and "takeWhile (\<lambda>c. c \<noteq> CHR '':'') (drop 4 s) \<noteq> []"
    and "dropWhile (\<lambda>c. c \<noteq> CHR '':'') (drop 4 s) \<noteq> []"
    and "did_Method d = takeWhile (\<lambda>c. c \<noteq> CHR '':'') (drop 4 s)"
    and "did_ID d = takeWhile (\<lambda>c. c \<noteq> CHR ''#'') (drop 1 (dropWhile (\<lambda>c. c \<noteq> CHR '':'') (drop 4 s)))"
    and "did_ID d \<noteq> []"
    and "list_all idchar (did_ID d)"
    and "did_Fragment d =
          (if dropWhile (\<lambda>c. c \<noteq> CHR ''#'') (drop 1 (dropWhile (\<lambda>c. c \<noteq> CHR '':'') (drop 4 s))) = [] then None
           else Some (drop 1 (dropWhile (\<lambda>c. c \<noteq> CHR ''#'') (drop 1 (dropWhile (\<lambda>c. c \<noteq> CHR '':'') (drop 4 s))))))"
proof -
  define rest where "rest = drop 4 s"
  define after where "after = dropWhile (\<lambda>c. c \<noteq> CHR '':'') rest"
  define body where "body = drop 1 after"
  define frag where "frag = dropWhile (\<lambda>c. c \<noteq> CHR ''#'') body"
  define ident where "ident = takeWhile (\<lambda>c. c \<noteq> CHR ''#'') body"
  define meth where "meth = takeWhile (\<lambda>c. c \<noteq> CHR '':'') rest"
  have P: "Parse idchar s =
     (if take 4 s \<noteq> ''did:'' then None
      else if meth = [] \<or> after = [] then None
      else if ident = [] \<or> \<not> list_all idchar ident then None
           else Some \<lparr>did_Method = meth, did_ID = ident,
                           did_Fragment = (if frag = [] then None else Some (drop 1 frag))\<rparr>)"
    unfolding Parse_def Let_def rest_def after_def body_def frag_def ident_def meth_def ..
  from assms have 1: "take 4 s = ''did:''"
    unfolding P by (metis option.distinct(1))
  from assms 1 have 2: "meth \<noteq> []" "after \<noteq> []"
    unfolding P by (metis option.distinct(1))+
  from assms 1 2 have 3: "ident \<noteq> []" "list_all idchar ident"
    unfolding P by (metis option.distinct(1))+
  from assms 1 2 3 have 4: "d = \<lparr>did_Method = meth, did_ID = ident,
                           did_Fragment = (if frag = [] then None else Some (drop 1 frag))\<rparr>"
    unfolding P by (metis option.inject)
  show "take 4 s = ''did:''" by (rule 1)
  show "takeWhile (\<lambda>c. c \<noteq> CHR '':'') (drop 4 s) \<noteq> []"
    using 2 unfolding meth_def rest_def by simp
  show "dropWhile (\<lambda>c. c \<noteq> CHR '':'') (drop 4 s) \<noteq> []"
    using 2 unfolding after_def rest_def by simp
  show "did_Method d = takeWhile (\<lambda>c. c \<noteq> CHR '':'') (drop 4 s)"
    unfolding 4 meth_def rest_def by simp
  show "did_ID d = takeWhile (\<lambda>c. c \<noteq> CHR ''#'') (drop 1 (dropWhile (\<lambda>c. c \<noteq> CHR '':'') (drop 4 s)))"
    unfolding 4 ident_def body_def after_def rest_def by simp
  show "did_ID d \<noteq> []" using 3 unfolding 4 by simp
  show "list_all idchar (did_ID d)" using 3 unfolding 4 by simp
  show "did_Fragment d =
          (if dropWhile (\<lambda>c. c \<noteq> CHR ''#'') (drop 1 (dropWhile (\<lambda>c. c \<noteq> CHR '':'') (drop 4 s))) = [] then None
           else Some (drop 1 (dropWhile (\<lambda>c. c \<noteq> CHR ''#'') (drop 1 (dropWhile (\<lambda>c. c \<noteq> CHR '':'') (drop 4 s))))))"
    unfolding 4 frag_def body_def after_def rest_def by simp
qed

lemma String_Parse:
  assumes "Parse idchar s = Some d"
  shows "String_DID d = s"
proof -
  let ?rest = "drop 4 s"
  let ?after = "dropWhile (\<lambda>c. c \<noteq> CHR '':'') ?rest"
  let ?body = "drop 1 ?after"
  let ?frag = "dropWhile (\<lambda>c. c \<noteq> CHR ''#'') ?body"
  note d = Parse_SomeD [OF assms]
  from dropWhile_hd_tl [OF d(3)] have after_eq: "?after = CHR '':'' # ?body"
    by simp
  have frag_eq: "(case did_Fragment d of None \<Rightarrow> [] | Some f \<Rightarrow> CHR ''#'' # f) = ?frag"
  proof (cases "?frag = []")
    case True
    have "did_Fragment d = None"
      unfolding d(8) using True by (rule if_P)
    then show ?thesis unfolding True by simp
  next
    case False
    have "did_Fragment d = Some (drop 1 ?frag)"
      unfolding d(8) using False by (rule if_not_P)
    moreover from dropWhile_hd_tl [OF False] have "?frag = CHR ''#'' # drop 1 ?frag"
      by simp
    ultimately show ?thesis by simp
  qed
  have "String_DID d = take 4 s @ (did_Method d @ (CHR '':'' # (did_ID d @ ?frag)))"
    unfolding String_DID_def frag_eq d(1) by simp
  also have "did_ID d @ ?frag = ?body"
    unfolding d(5) by (rule takeWhile_dropWhile_id)
  also have "did_Method d @ (CHR '':'' # ?body) = ?rest"
    unfolding d(4) after_eq [symmetric] by (rule takeWhile_dropWhile_id)
  also have "take 4 s @ ?rest = s"
    by (rule append_take_drop_id)
  finally show ?thesis .
qed

lemma String_DID_length:
  "length (String_DID d) =
     5 + length (did_Method d) + length (did_ID d) +
     (case did_Fragment d of None \<Rightarrow> 0 | Some f \<Rightarrow> Suc (length f))"
  by (simp add: String_DID_def split: option.splits)

lemma Parse_length:
  assumes "Parse idchar s = Some d"
  shows "length (did_ID d) + 6 \<le> length s"
proof -
  have "did_Method d \<noteq> []"
    using Parse_SomeD(2,4) [OF assms] by simp
  then have "1 \<le> length (did_Method d)"
    by (cases "did_Method d") simp_all
  moreover have "length s = length (String_DID d)"
    using String_Parse [OF assms] by simp
  ultimately show ?thesis
    unfolding String_DID_length by linarith
qed

section \<open>Runs that succeed\<close>

lemma readDIDDocument_resolved:
  assumes "Parse (env_idchar env) id' = Some d"
    and "registryAddress \<noteq> []"
    and "Dial env rpcURL" and "DIDRegistryABI env"
    and "CallConstantFunction env registryAddress ''hash'' (idBytes32 d) = Some hash"
    and "http_Get env (''https://ipfs.infura.io:5001/api/v0/cat?arg='' @ hash) = Some body"
    and "Decode_Document env body = Some doc"
  shows "readDIDDocument env rpcURL registryAddress id' =
           ([EvDial rpcURL, EvCallConstant registryAddress ''hash'' (idBytes32 d),
             EvHttpGet (''https://ipfs.infura.io:5001/api/v0/cat?arg='' @ hash)], Inr doc)"
  using assms by (simp add: readDIDDocument_def connect_cases call_def local_step_def)

lemma SignClaim_InrD:
  assumes "SignClaim env rpcURL privateKey id' typ issuerID subjectID subjectJSON time_Now
             = Inr (issued, out)"
  obtains acc parsed h sig where
    "id' \<noteq> []" "typ \<noteq> []"
    "Parse (env_idchar env) issuerID \<noteq> None" "Parse (env_idchar env) subjectID \<noteq> None"
    "ParsePrivateKey env privateKey = Some acc"
    "(if subjectJSON \<noteq> [] then Unmarshal_subject env subjectJSON else Some (Some fmempty))
       = Some (Some parsed)"
    "SignClaim_digest env
       \<lparr>vc_ID = id', vc_Type = env_base_types env @ [typ], vc_Issuer = issuerID,
        vc_IssuanceDate = Some (Truncate (UTC_of time_Now) Second),
        vc_CredentialSubject = Some (fmupd ''id'' (JString subjectID) parsed),
        vc_Proof = None\<rparr> = Some h"
    "Sign env h acc = Some sig" "sig \<noteq> []"
    "issued =
       \<lparr>vc_ID = id', vc_Type = env_base_types env @ [typ], vc_Issuer = issuerID,
        vc_IssuanceDate = Some (Truncate (UTC_of time_Now) Second),
        vc_CredentialSubject = Some (fmupd ''id'' (JString subjectID) parsed),
        vc_Proof = Some \<lparr>vp_Type = ''Secp256k1VerificationKey2018'',
                         vp_Created = Some (Truncate (UTC_of time_Now) Second),
                         vp_ProofValue = Bytes2Hex (take (length sig - 1) sig)\<rparr>\<rparr>"
    "MarshalIndent_Credential env issued = Some out"
  using assms unfolding SignClaim_def NewVerifiableCredential_def Let_def
  by (simp split: if_splits option.splits)


lemma digest_without_proof:
  "VerifyClaim_digest env cred = SignClaim_digest env (cred\<lparr>vc_Proof := None\<rparr>)"
  by (simp add: VerifyClaim_digest_def SignClaim_digest_def)

lemma verify_keys_with_proof:
  "verify_keys env h (Some p) pubs =
     Inr (list_ex
            (\<lambda>pub. VerifySignature env (Hex2Bytes (TrimPrefix (pk_PublicKeyHex pub) ''0x'')) h
                     (Hex2Bytes (vp_ProofValue p)))
            (filter (\<lambda>pub. pk_Type pub = ''Secp256k1VerificationKey2018'') pubs))"
  by (induction pubs) (simp_all add: Let_def)

lemma verify_keys_without_proof:
  "verify_keys env h None pubs =
     (if list_ex (\<lambda>pub. pk_Type pub = ''Secp256k1VerificationKey2018'') pubs
      then Inl PanicNilPointer else Inr False)"
  by (induction pubs) (simp_all add: Let_def)

lemma verify_keys_first:
  assumes "pk_Type pub = ''Secp256k1VerificationKey2018''"
    and "VerifySignature env (Hex2Bytes (TrimPrefix (pk_PublicKeyHex pub) ''0x'')) h
           (Hex2Bytes (vp_ProofValue p))"
  shows "verify_keys env h (Some p) (before @ pub # rest) = Inr True"
  using assms by (simp add: verify_keys_with_proof)



section \<open>The concrete environment at work\<close>

lemma test_env_simps:
  "env_idchar test_env = (\<lambda>c. c \<in> set ''abcdefghijklmnopqrstuvwxyz0123456789'')"
  "env_base_types test_env = [''VerifiableCredential'']"
  "ParsePrivateKey test_env s = (if s = [] then None else Some (Hex2Bytes s))"
  "FromECDSAPub test_env key = key"
  "MarshalIndent_Document test_env doc = Some (bytes_of (doc_ID doc))"
  "ipfs_add test_env name data = Some ''QmHash''"
  "Dial test_env url = (url \<noteq> [])"
  "DIDRegistryABI test_env = True"
  "CallTransactFunction test_env address pk fn id32 hash = Some ''0xtx''"
  "WaitForReceipt test_env tx = Some tx"
  "CallConstantFunction test_env address fn id32 = Some ''QmHash''"
  "http_Get test_env url = Some (bytes_of url)"
  "Decode_Document test_env body = Some test_doc"
  "Unmarshal_subject test_env js =
     (if js = ''null'' then Some None
      else Some (Some (fmupd ''age'' (JNumber 0x4035000000000000) fmempty)))"
  "Encode_Credential test_env cred = (if cred = test_unsigned then Some [1] else Some [2])"
  "Keccak256 test_env pre = pre"
  "Sign test_env h key = Some (key @ h @ [0])"
  "MarshalIndent_Credential test_env cred =
     (if cred = test_signed then Some (test_file ''21'') else Some (bytes_of (vc_ID cred)))"
  "ReadFile test_env name =
     (if name = ''credential.json'' then Some (test_file ''21'')
      else if name = ''mutated.json'' then Some (test_file ''21.0'')
      else if name = ''tampered.json'' then Some (test_file ''100'')
      else None)"
  "Unmarshal_Credential test_env buf =
     (if buf = test_file ''21'' \<or> buf = test_file ''21.0'' then Some test_signed
      else if buf = test_file ''100'' then Some test_tampered
      else None)"
  "VerifySignature test_env pubkey h sig = (sig = pubkey @ h)"
  "map_range test_env m = rev (sorted_list_of_fset (fmdom m))"
  by (simp_all add: test_env_def)

lemma test_Parse_issuer:
  "Parse (env_idchar test_env) ''did:go:issuer1'' = Some test_issuer"
  by (simp add: Parse_def test_env_def test_issuer_def)

lemma test_Parse_subject:
  "Parse (env_idchar test_env) ''did:go:subj1'' =
     Some \<lparr>did_Method = ''go'', did_ID = ''subj1'', did_Fragment = None\<rparr>"
  by (simp add: Parse_def test_env_def)

lemma test_Parse_long:
  "Parse (env_idchar test_env) ''did:go:abcdefghijklmnopqrstuvwxyz0123456'' =
     Some \<lparr>did_Method = ''go'', did_ID = ''abcdefghijklmnopqrstuvwxyz0123456'', did_Fragment = None\<rparr>"
  by (simp add: Parse_def test_env_def)

lemma test_Parse_web:
  "Parse (env_idchar test_env) ''did:web:abc#key1'' =
     Some \<lparr>did_Method = ''web'', did_ID = ''abc'', did_Fragment = Some ''key1''\<rparr>"
  by (simp add: Parse_def test_env_def)

lemma test_web_method:
  "did_Method \<lparr>did_Method = ''web'', did_ID = ''abc'', did_Fragment = Some ''key1''\<rparr> \<noteq> ''go''"
  by simp

lemma test_SignClaim:
  "SignClaim test_env ''http://rpc'' ''07'' ''urn:1'' ''ProofOfAge'' ''did:go:issuer1'' ''did:go:subj1''
     ''{\"age\":21}'' test_now = Inr (test_signed, test_file ''21'')"
  by (simp add: SignClaim_def test_Parse_issuer test_Parse_subject)
     (simp add: test_env_def test_now_def test_signed_def test_unsigned_def test_subject_def
        NewVerifiableCredential_def SignClaim_digest_def Truncate_def UTC_of_def Second_def
        unixToInternal_def hexdigit_def
        fromHexChar_def Let_def)

lemma test_readDIDDocument:
  "readDIDDocument test_env ''http://rpc'' ''0xregistry'' ''did:go:issuer1'' =
     ([EvDial ''http://rpc'', EvCallConstant ''0xregistry'' ''hash'' (idBytes32 test_issuer),
       EvHttpGet ''https://ipfs.infura.io:5001/api/v0/cat?arg=QmHash''], Inr test_doc)"
  using readDIDDocument_resolved [OF test_Parse_issuer, where registryAddress = "''0xregistry''"
      and rpcURL = "''http://rpc''" and hash = "''QmHash''" and doc = test_doc
      and body = "bytes_of ''https://ipfs.infura.io:5001/api/v0/cat?arg=QmHash''"]
  by (simp add: test_env_simps)

lemma test_doc_keys:
  "doc_PublicKeys test_doc =
     [\<lparr>pk_ID = ''did:go:issuer1#owner'', pk_Type = ''Secp256k1VerificationKey2018'',
       pk_Controller = ''did:go:issuer1'', pk_PublicKeyPEM = [], pk_PublicKeyJWK = [],
       pk_PublicKeyHex = ''0x07'', pk_PublicKeyBase64 = [], pk_PublicKeyBase58 = [],
       pk_PublicKeyMultibase = []\<rparr>]"
  by (simp add: test_doc_def CreateDID_document_def NewDocument_def String_DID_def test_issuer_def
      ToHex_def hexdigit_def)

lemma test_show_web:
  "''0xregistry'' \<noteq> [] \<and> Dial test_env ''http://rpc'' \<and> DIDRegistryABI test_env
   \<and> CallConstantFunction test_env ''0xregistry'' ''hash''
        (idBytes32 \<lparr>did_Method = ''web'', did_ID = ''abc'', did_Fragment = Some ''key1''\<rparr>) = Some ''QmHash''
   \<and> http_Get test_env (''https://ipfs.infura.io:5001/api/v0/cat?arg='' @ ''QmHash'')
        = Some (bytes_of ''https://ipfs.infura.io:5001/api/v0/cat?arg=QmHash'')
   \<and> Decode_Document test_env (bytes_of ''https://ipfs.infura.io:5001/api/v0/cat?arg=QmHash'') = Some test_doc
   \<and> MarshalIndent_Document test_env test_doc = Some (bytes_of ''did:go:issuer1'')"
  by (simp add: test_env_def test_doc_def CreateDID_document_def NewDocument_def String_DID_def
      test_issuer_def)

lemma test_registry_runs:
  "registry_events (fst (CreateDID test_env ''http://rpc'' ''07'' ''did:go:issuer1'' ''0xregistry'' test_now))
     = [idBytes32 test_issuer]"
  "registry_events (fst (DIDOwner test_env ''http://rpc'' ''07'' ''did:go:issuer1'' ''0xregistry''))
     = [idBytes32 test_issuer]"
  "registry_events (fst (DIDHash test_env ''http://rpc'' ''07'' ''did:go:issuer1'' ''0xregistry''))
     = [idBytes32 test_issuer]"
  "registry_events (fst (readDIDDocument test_env ''http://rpc'' ''0xregistry'' ''did:go:issuer1''))
     = [idBytes32 test_issuer]"
  by (simp_all add: CreateDID_def DIDOwner_def DIDHash_def readDIDDocument_def test_Parse_issuer
      IPFSUpload_def connect_cases call_def local_step_def registry_events_simps Let_def
      MaxDIDLength_def test_env_simps(3-))
     (simp add: test_issuer_def)

lemma test_map_range:
  "distinct (map_range test_env m) \<and> set (map_range test_env m) = fset (fmdom m)"
  by (simp add: test_env_simps sorted_list_of_fset.rep_eq)

lemma test_verify_signed:
  "readDIDDocument test_env ''http://rpc'' ''0xregistry'' (vc_Issuer test_signed) =
     ([EvDial ''http://rpc'', EvCallConstant ''0xregistry'' ''hash'' (idBytes32 test_issuer),
       EvHttpGet ''https://ipfs.infura.io:5001/api/v0/cat?arg=QmHash''], Inr test_doc)"
  "VerifyClaim_digest test_env test_signed = Some [1]"
  "verify_keys test_env [1] (vc_Proof test_signed) (doc_PublicKeys test_doc) = Inr True"
  by (simp_all add: test_readDIDDocument VerifyClaim_digest_def test_env_simps test_doc_keys
      test_signed_def test_unsigned_def TrimPrefix_def fromHexChar_def)

lemma test_verify_bare:
  "readDIDDocument test_env ''http://rpc'' ''0xregistry'' (vc_Issuer test_bare) =
     ([EvDial ''http://rpc'', EvCallConstant ''0xregistry'' ''hash'' (idBytes32 test_issuer),
       EvHttpGet ''https://ipfs.infura.io:5001/api/v0/cat?arg=QmHash''], Inr test_doc)"
  "VerifyClaim_digest test_env test_bare = Some [2]"
  "verify_keys test_env [2] (vc_Proof test_bare) (doc_PublicKeys test_doc) = Inr True"
  by (simp_all add: test_readDIDDocument VerifyClaim_digest_def test_env_simps test_doc_keys
      test_bare_def test_unsigned_def TrimPrefix_def fromHexChar_def)







section \<open>Parsing and formatting identifiers\<close>

text \<open>
  Claim C8.  Formatting the result of parsing a syntactically valid identifier string gives
  the string back.
\<close>

theorem format_parse_roundtrip:
  assumes "Parse idchar s = Some d"
  shows "String_DID d = s"
  using assms by (rule String_Parse)

theorem format_parse_roundtrip_witness:
  "String_DID \<lparr>did_Method = ''web'', did_ID = ''abc'', did_Fragment = Some ''key1''\<rparr> = ''did:web:abc#key1''"
  using format_parse_roundtrip [OF test_Parse_web] .

section \<open>The guards of registration\<close>

text \<open>
  Claim C1.  When the identifier parses and its method-specific id is longer than 32 bytes,
  \<open>CreateDID\<close> stops with a validation failure and has made no network call: the
  registry address is missing, the method is not \<open>go\<close>, or the length check fires.  The
  length check is on the whole identifier string, which is at least six bytes longer than
  its id part.
\<close>

theorem CreateDID_oversize:
  assumes "Parse (env_idchar env) id' = Some d"
    and "32 < length (did_ID d)"
  shows "CreateDID env rpcURL privateKey id' registryAddress now =
           ([], Inl (if registryAddress = [] then RegistryAddressRequired
                     else if did_Method d \<noteq> ''go'' then OnlyGoMethods
                     else IDTooLong))"
proof -
  from Parse_length [OF assms(1)] assms(2) have "MaxDIDLength < length id'"
    by (simp add: MaxDIDLength_def)
  moreover from this have "id' \<noteq> []"
    by auto
  ultimately show ?thesis
    using assms(1) by (simp add: CreateDID_def)
qed

text \<open>The identifier \<open>did:go:\<close> followed by 33 characters is rejected for its length.\<close>

theorem CreateDID_oversize_witness:
  "CreateDID test_env ''http://rpc'' ''07'' ''did:go:abcdefghijklmnopqrstuvwxyz0123456'' ''0xregistry'' test_now =
     ([], Inl IDTooLong)"
  using CreateDID_oversize [OF test_Parse_long, of "''http://rpc''" "''07''" "''0xregistry''" test_now]
  by simp

text \<open>
  Claim C7.  For a parseable identifier whose method is not \<open>go\<close>, \<open>CreateDID\<close> stops with
  a validation failure (the missing registry address, or the method) and has made no
  network call, so nothing is uploaded or written to the registry.  \<open>ShowDID\<close> has no such
  guard: when the registry and the content store answer, it resolves and prints the
  document of that identifier.
\<close>

theorem CreateDID_only_go:
  assumes "Parse (env_idchar env) id' = Some d"
    and "did_Method d \<noteq> ''go''"
  shows "CreateDID env rpcURL privateKey id' registryAddress now =
           ([], Inl (if registryAddress = [] then RegistryAddressRequired else OnlyGoMethods))
         \<and> (registryAddress \<noteq> [] \<and> Dial env rpcURL \<and> DIDRegistryABI env
              \<and> CallConstantFunction env registryAddress ''hash'' (idBytes32 d) = Some hash
              \<and> http_Get env (''https://ipfs.infura.io:5001/api/v0/cat?arg='' @ hash) = Some body
              \<and> Decode_Document env body = Some doc
              \<and> MarshalIndent_Document env doc = Some shown
            \<longrightarrow> ShowDID env rpcURL privateKey id' registryAddress =
                  ([EvDial rpcURL, EvCallConstant registryAddress ''hash'' (idBytes32 d),
                    EvHttpGet (''https://ipfs.infura.io:5001/api/v0/cat?arg='' @ hash)], Inr shown))"
proof (intro conjI impI)
  have "id' \<noteq> []"
    using Parse_length [OF assms(1)] by auto
  then show "CreateDID env rpcURL privateKey id' registryAddress now =
           ([], Inl (if registryAddress = [] then RegistryAddressRequired else OnlyGoMethods))"
    using assms by (simp add: CreateDID_def)
next
  assume a: "registryAddress \<noteq> [] \<and> Dial env rpcURL \<and> DIDRegistryABI env
              \<and> CallConstantFunction env registryAddress ''hash'' (idBytes32 d) = Some hash
              \<and> http_Get env (''https://ipfs.infura.io:5001/api/v0/cat?arg='' @ hash) = Some body
              \<and> Decode_Document env body = Some doc
              \<and> MarshalIndent_Document env doc = Some shown"
  then have "readDIDDocument env rpcURL registryAddress id' =
           ([EvDial rpcURL, EvCallConstant registryAddress ''hash'' (idBytes32 d),
             EvHttpGet (''https://ipfs.infura.io:5001/api/v0/cat?arg='' @ hash)], Inr doc)"
    using readDIDDocument_resolved [OF assms(1)] by blast
  with a show "ShowDID env rpcURL privateKey id' registryAddress =
                  ([EvDial rpcURL, EvCallConstant registryAddress ''hash'' (idBytes32 d),
                    EvHttpGet (''https://ipfs.infura.io:5001/api/v0/cat?arg='' @ hash)], Inr shown)"
    by (simp add: ShowDID_def local_step_def)
qed

theorem CreateDID_only_go_witness:
  "CreateDID test_env ''http://rpc'' ''07'' ''did:web:abc#key1'' ''0xregistry'' test_now =
     ([], Inl OnlyGoMethods)
   \<and> ShowDID test_env ''http://rpc'' ''07'' ''did:web:abc#key1'' ''0xregistry'' =
       ([EvDial ''http://rpc'',
         EvCallConstant ''0xregistry'' ''hash''
           (idBytes32 \<lparr>did_Method = ''web'', did_ID = ''abc'', did_Fragment = Some ''key1''\<rparr>),
         EvHttpGet ''https://ipfs.infura.io:5001/api/v0/cat?arg=QmHash''],
        Inr (bytes_of ''did:go:issuer1''))"
  using CreateDID_only_go [OF test_Parse_web test_web_method,
      where registryAddress = "''0xregistry''" and rpcURL = "''http://rpc''" and hash = "''QmHash''"
        and body = "bytes_of ''https://ipfs.infura.io:5001/api/v0/cat?arg=QmHash''"
        and doc = test_doc and shown = "bytes_of ''did:go:issuer1''"
        and privateKey = "''07''" and now = test_now]
    test_show_web
  by simp

section \<open>The document built for registration\<close>

text \<open>
  Claim C4.  The document \<open>CreateDID\<close> builds has the fixed context, the identifier's string
  form as id, \<open>created\<close> and \<open>updated\<close> both equal to \<open>now\<close>, one public key whose id is
  the identifier with the fragment \<open>#owner\<close>, of type \<open>Secp256k1VerificationKey2018\<close>,
  controlled by the identifier, with the key bytes in hexadecimal and no other encoding,
  and one authentication entry, the reference to that key's id.
\<close>

theorem CreateDID_document_fields:
  "doc_Context (CreateDID_document d publicKey now) = ''https://w3id.org/did/v1''
   \<and> doc_ID (CreateDID_document d publicKey now) = String_DID d
   \<and> doc_Created (CreateDID_document d publicKey now) = Some now
   \<and> doc_Updated (CreateDID_document d publicKey now) = Some now
   \<and> doc_PublicKeys (CreateDID_document d publicKey now) =
       [\<lparr>pk_ID = ''did:'' @ did_Method d @ '':'' @ did_ID d @ ''#owner'',
         pk_Type = ''Secp256k1VerificationKey2018'',
         pk_Controller = String_DID d,
         pk_PublicKeyPEM = [], pk_PublicKeyJWK = [],
         pk_PublicKeyHex = ''0x'' @ (if publicKey = [] then ''0'' else Bytes2Hex publicKey),
         pk_PublicKeyBase64 = [], pk_PublicKeyBase58 = [], pk_PublicKeyMultibase = []\<rparr>]
   \<and> doc_Authentications (CreateDID_document d publicKey now) =
       [AuthRef (''did:'' @ did_Method d @ '':'' @ did_ID d @ ''#owner'')]
   \<and> String_DID (d\<lparr>did_Fragment := Some ''owner''\<rparr>) = ''did:'' @ did_Method d @ '':'' @ did_ID d @ ''#owner''
   \<and> doc_Services (CreateDID_document d publicKey now) = []
   \<and> doc_Proof (CreateDID_document d publicKey now) = None"
proof -
  have "(Bytes2Hex publicKey = []) = (publicKey = [])"
    by (cases publicKey) simp_all
  then show ?thesis
    by (simp add: CreateDID_document_def NewDocument_def ContextV1_def String_DID_def ToHex_def)
qed

section \<open>The registry key\<close>

lemma DIDOwner_keys:
  assumes "Parse (env_idchar env) id' = Some d"
  shows "list_all (\<lambda>k. k = idBytes32 d) (registry_events (fst (DIDOwner env rpcURL privateKey id' registryAddress)))"
  using assms
  by (simp add: DIDOwner_def connect_cases call_def registry_events_simps)

lemma DIDHash_keys:
  assumes "Parse (env_idchar env) id' = Some d"
  shows "list_all (\<lambda>k. k = idBytes32 d) (registry_events (fst (DIDHash env rpcURL privateKey id' registryAddress)))"
  using assms
  by (simp add: DIDHash_def connect_cases call_def registry_events_simps)

lemma readDIDDocument_keys:
  assumes "Parse (env_idchar env) id' = Some d"
  shows "list_all (\<lambda>k. k = idBytes32 d)
           (registry_events (fst (readDIDDocument env rpcURL registryAddress id')))"
  using assms
  by (simp add: readDIDDocument_def connect_cases call_def local_step_def registry_events_simps
      Let_def split: option.splits)

lemma CreateDID_keys:
  assumes "Parse (env_idchar env) id' = Some d"
  shows "list_all (\<lambda>k. k = idBytes32 d)
           (registry_events (fst (CreateDID env rpcURL privateKey id' registryAddress now)))"
  using assms
  by (simp add: CreateDID_def IPFSUpload_def connect_cases call_def local_step_def
      registry_events_simps Let_def split: option.splits)

text \<open>
  Claim C9.  The key of every registry call made by \<open>CreateDID\<close> (register), \<open>DIDOwner\<close>
  (owner), \<open>DIDHash\<close> and \<open>readDIDDocument\<close> (hash) for an identifier is the same 32
  bytes: the bytes of the method-specific id, cut after 32 bytes and filled with zero bytes
  on the right.
\<close>

theorem registry_key:
  assumes "Parse (env_idchar env) id' = Some d"
  shows "length (idBytes32 d) = 32
         \<and> idBytes32 d = take 32 (bytes_of (did_ID d)) @ replicate (32 - length (did_ID d)) 0
         \<and> list_all (\<lambda>k. k = idBytes32 d)
              (registry_events (fst (CreateDID env rpcURL privateKey id' registryAddress now))
               @ registry_events (fst (DIDOwner env rpcURL privateKey id' registryAddress))
               @ registry_events (fst (DIDHash env rpcURL privateKey id' registryAddress))
               @ registry_events (fst (readDIDDocument env rpcURL registryAddress id')))"
  using CreateDID_keys [OF assms] DIDOwner_keys [OF assms] DIDHash_keys [OF assms]
    readDIDDocument_keys [OF assms] idBytes32_length idBytes32_eq
  by simp

theorem registry_key_witness:
  "idBytes32 test_issuer = bytes_of ''issuer1'' @ replicate 25 0
   \<and> registry_events (fst (CreateDID test_env ''http://rpc'' ''07'' ''did:go:issuer1'' ''0xregistry'' test_now))
       @ registry_events (fst (DIDOwner test_env ''http://rpc'' ''07'' ''did:go:issuer1'' ''0xregistry''))
       @ registry_events (fst (DIDHash test_env ''http://rpc'' ''07'' ''did:go:issuer1'' ''0xregistry''))
       @ registry_events (fst (readDIDDocument test_env ''http://rpc'' ''0xregistry'' ''did:go:issuer1''))
       = replicate 4 (bytes_of ''issuer1'' @ replicate 25 0)"
  using registry_key [OF test_Parse_issuer, where rpcURL = "''http://rpc''"
      and privateKey = "''07''" and registryAddress = "''0xregistry''" and now = test_now]
  by (simp add: test_registry_runs) (simp add: test_issuer_def bytes_of_def numeral_eq_Suc)

section \<open>Issued credentials\<close>

text \<open>
  Whenever \<open>SignClaim\<close> issues a credential, the credential has the subject claims it was
  given with \<open>id\<close> set to the subject identifier, the current time in UTC rounded down to
  the second as issuance date, and a proof over the digest of the credential without proof.
\<close>

lemma SignClaim_issued:
  assumes "SignClaim env rpcURL privateKey id' typ issuerID subjectID subjectJSON time_Now
             = Inr (issued, out)"
  shows "\<exists>parsed now acc pre sig.
           (if subjectJSON \<noteq> [] then Unmarshal_subject env subjectJSON else Some (Some fmempty))
             = Some (Some parsed)
         \<and> vc_CredentialSubject issued = Some (fmupd ''id'' (JString subjectID) parsed)
         \<and> fmlookup (fmupd ''id'' (JString subjectID) parsed) ''id'' = Some (JString subjectID)
         \<and> vc_IssuanceDate issued = Some now
         \<and> location now = UTC
         \<and> unix_nano now mod 1000000000 = 0
         \<and> unix_nano now \<le> unix_nano time_Now
         \<and> unix_nano time_Now < unix_nano now + 1000000000
         \<and> ParsePrivateKey env privateKey = Some acc
         \<and> Encode_Credential env (issued\<lparr>vc_Proof := None\<rparr>) = Some pre
         \<and> Sign env (Keccak256 env pre) acc = Some sig
         \<and> sig \<noteq> []
         \<and> vc_Proof issued =
               Some \<lparr>vp_Type = ''Secp256k1VerificationKey2018'', vp_Created = Some now,
                     vp_ProofValue = Bytes2Hex (butlast sig)\<rparr>
         \<and> vc_ID issued = id' \<and> vc_Issuer issued = issuerID
         \<and> vc_Type issued = env_base_types env @ [typ]"
proof -
  from assms obtain acc parsed h sig where d:
    "ParsePrivateKey env privateKey = Some acc"
    "(if subjectJSON \<noteq> [] then Unmarshal_subject env subjectJSON else Some (Some fmempty))
       = Some (Some parsed)"
    "SignClaim_digest env
       \<lparr>vc_ID = id', vc_Type = env_base_types env @ [typ], vc_Issuer = issuerID,
        vc_IssuanceDate = Some (Truncate (UTC_of time_Now) Second),
        vc_CredentialSubject = Some (fmupd ''id'' (JString subjectID) parsed),
        vc_Proof = None\<rparr> = Some h"
    "Sign env h acc = Some sig" "sig \<noteq> []"
    "issued =
       \<lparr>vc_ID = id', vc_Type = env_base_types env @ [typ], vc_Issuer = issuerID,
        vc_IssuanceDate = Some (Truncate (UTC_of time_Now) Second),
        vc_CredentialSubject = Some (fmupd ''id'' (JString subjectID) parsed),
        vc_Proof = Some \<lparr>vp_Type = ''Secp256k1VerificationKey2018'',
                         vp_Created = Some (Truncate (UTC_of time_Now) Second),
                         vp_ProofValue = Bytes2Hex (take (length sig - 1) sig)\<rparr>\<rparr>"
    by (rule SignClaim_InrD)
  from d(3) obtain pre where pre:
    "Encode_Credential env
       \<lparr>vc_ID = id', vc_Type = env_base_types env @ [typ], vc_Issuer = issuerID,
        vc_IssuanceDate = Some (Truncate (UTC_of time_Now) Second),
        vc_CredentialSubject = Some (fmupd ''id'' (JString subjectID) parsed),
        vc_Proof = None\<rparr> = Some pre" "h = Keccak256 env pre"
    by (auto simp: SignClaim_digest_def)
  have "butlast sig = take (length sig - 1) sig"
    by (rule butlast_conv_take)
  with d pre Truncate_Second [of time_Now] show ?thesis
    by (intro exI [of _ parsed] exI [of _ "Truncate (UTC_of time_Now) Second"] exI [of _ acc]
        exI [of _ pre] exI [of _ sig]) simp
qed

text \<open>
  Decoding the JSON text \<open>null\<close> leaves the subject map \<open>nil\<close>; the store of \<open>id\<close> into it
  panics, whatever the rest of the call.
\<close>

lemma SignClaim_null_subject_panics:
  assumes "id' \<noteq> []" and "typ \<noteq> []"
    and "Parse (env_idchar env) issuerID = Some issuer"
    and "Parse (env_idchar env) subjectID = Some subj"
    and "ParsePrivateKey env privateKey = Some acc"
    and "subjectJSON \<noteq> []" and "Unmarshal_subject env subjectJSON = Some None"
  shows "SignClaim env rpcURL privateKey id' typ issuerID subjectID subjectJSON time_Now
           = Inl PanicNilMap"
proof -
  have "issuerID \<noteq> []" "subjectID \<noteq> []"
    using Parse_length [OF assms(3)] Parse_length [OF assms(4)] by auto
  with assms show ?thesis
    by (simp add: SignClaim_def)
qed

text \<open>
  Parseable issuer and subject identifiers are not enough for a credential to be issued:
  \<open>SignClaim\<close> first requires a credential id and a type, and a private key that parses.
\<close>

theorem SignClaim_guards_counterexample:
  "Parse (env_idchar test_env) ''did:go:issuer1'' = Some test_issuer
   \<and> Parse (env_idchar test_env) ''did:go:subj1''
       = Some \<lparr>did_Method = ''go'', did_ID = ''subj1'', did_Fragment = None\<rparr>
   \<and> SignClaim test_env ''http://rpc'' ''07'' [] ''ProofOfAge'' ''did:go:issuer1'' ''did:go:subj1''
         ''{\"age\":21}'' test_now = Inl CredentialIDRequired
   \<and> SignClaim test_env ''http://rpc'' ''07'' ''urn:1'' [] ''did:go:issuer1'' ''did:go:subj1''
         ''{\"age\":21}'' test_now = Inl CredentialTypeRequired
   \<and> SignClaim test_env ''http://rpc'' [] ''urn:1'' ''ProofOfAge'' ''did:go:issuer1'' ''did:go:subj1''
         ''{\"age\":21}'' test_now = Inl CannotParsePrivateKey"
  by (simp add: SignClaim_def test_Parse_issuer test_Parse_subject test_env_simps(3))

text \<open>
  Claim C5, as amended.  A call of \<open>SignClaim\<close> with a credential id and a type, issuer and
  subject identifiers that parse, a private key that parses, and subject data that is empty
  or decodes to a JSON object, issues a credential, provided the JSON encoder does not fail
  and signing gives a signature that is not empty.  The credential has the subject claims
  it was given with \<open>id\<close> set to the subject identifier, whatever \<open>id\<close> they held; its
  issuance date is the current time in UTC, rounded down to the second; its proof has the
  type \<open>Secp256k1VerificationKey2018\<close>, the issuance date as creation time, and as value the
  hexadecimal text of the signature over the Keccak-256 digest of the credential without
  proof, less its last byte.
\<close>

theorem SignClaim_issues:
  assumes "id' \<noteq> []" and "typ \<noteq> []"
    and "Parse (env_idchar env) issuerID = Some issuer"
    and "Parse (env_idchar env) subjectID = Some subj"
    and "ParsePrivateKey env privateKey = Some acc"
    and "(if subjectJSON \<noteq> [] then Unmarshal_subject env subjectJSON else Some (Some fmempty))
           = Some (Some parsed)"
    and "\<And>cred. Encode_Credential env cred \<noteq> None"
    and "\<And>h. \<exists>sig. Sign env h acc = Some sig \<and> sig \<noteq> []"
    and "\<And>cred. MarshalIndent_Credential env cred \<noteq> None"
  shows "\<exists>issued out now pre sig.
           SignClaim env rpcURL privateKey id' typ issuerID subjectID subjectJSON time_Now
             = Inr (issued, out)
         \<and> vc_CredentialSubject issued = Some (fmupd ''id'' (JString subjectID) parsed)
         \<and> fmlookup (fmupd ''id'' (JString subjectID) parsed) ''id'' = Some (JString subjectID)
         \<and> vc_IssuanceDate issued = Some now
         \<and> location now = UTC
         \<and> unix_nano now mod 1000000000 = 0
         \<and> unix_nano now \<le> unix_nano time_Now
         \<and> unix_nano time_Now < unix_nano now + 1000000000
         \<and> Encode_Credential env (issued\<lparr>vc_Proof := None\<rparr>) = Some pre
         \<and> Sign env (Keccak256 env pre) acc = Some sig
         \<and> sig \<noteq> []
         \<and> vc_Proof issued =
               Some \<lparr>vp_Type = ''Secp256k1VerificationKey2018'', vp_Created = Some now,
                     vp_ProofValue = Bytes2Hex (butlast sig)\<rparr>
         \<and> vc_ID issued = id' \<and> vc_Issuer issued = issuerID
         \<and> vc_Type issued = env_base_types env @ [typ]
         \<and> MarshalIndent_Credential env issued = Some out"
proof -
  define now where "now = Truncate (UTC_of time_Now) Second"
  define cred where "cred =
       \<lparr>vc_ID = id', vc_Type = env_base_types env @ [typ], vc_Issuer = issuerID,
        vc_IssuanceDate = Some now,
        vc_CredentialSubject = Some (fmupd ''id'' (JString subjectID) parsed),
        vc_Proof = None\<rparr>"
  obtain pre where pre: "Encode_Credential env cred = Some pre"
    using assms(7) [of cred] by auto
  obtain sig where sig: "Sign env (Keccak256 env pre) acc = Some sig" "sig \<noteq> []"
    using assms(8) by blast
  define issued where "issued =
       cred\<lparr>vc_Proof := Some \<lparr>vp_Type = ''Secp256k1VerificationKey2018'',
                               vp_Created = Some now,
                               vp_ProofValue = Bytes2Hex (take (length sig - 1) sig)\<rparr>\<rparr>"
  obtain out where out: "MarshalIndent_Credential env issued = Some out"
    using assms(9) [of issued] by auto
  have nonempty: "issuerID \<noteq> []" "subjectID \<noteq> []"
    using Parse_length [OF assms(3)] Parse_length [OF assms(4)] by auto
  have digest: "SignClaim_digest env cred = Some (Keccak256 env pre)"
    by (simp add: SignClaim_digest_def pre)
  have run: "SignClaim env rpcURL privateKey id' typ issuerID subjectID subjectJSON time_Now
               = Inr (issued, out)"
    unfolding SignClaim_def NewVerifiableCredential_def Let_def
    using assms(1-6) nonempty digest sig out
    by (simp add: cred_def issued_def now_def)
  have stripped: "issued\<lparr>vc_Proof := None\<rparr> = cred"
    by (simp add: issued_def cred_def)
  have "butlast sig = take (length sig - 1) sig"
    by (rule butlast_conv_take)
  with run pre sig out stripped Truncate_Second [of time_Now] show ?thesis
    by (intro exI [of _ issued] exI [of _ out] exI [of _ now] exI [of _ pre] exI [of _ sig])
       (simp add: issued_def cred_def now_def)
qed

theorem SignClaim_issues_witness:
  "\<exists>issued out now pre sig.
     SignClaim test_env ''http://rpc'' ''07'' ''urn:1'' ''ProofOfAge'' ''did:go:issuer1''
       ''did:go:subj1'' ''{\"age\":21}'' test_now = Inr (issued, out)
   \<and> vc_CredentialSubject issued
       = Some (fmupd ''id'' (JString ''did:go:subj1'')
                 (fmupd ''age'' (JNumber 0x4035000000000000) fmempty))
   \<and> fmlookup (fmupd ''id'' (JString ''did:go:subj1'')
                 (fmupd ''age'' (JNumber 0x4035000000000000) fmempty)) ''id''
       = Some (JString ''did:go:subj1'')
   \<and> vc_IssuanceDate issued = Some now
   \<and> location now = UTC
   \<and> unix_nano now mod 1000000000 = 0
   \<and> unix_nano now \<le> unix_nano test_now
   \<and> unix_nano test_now < unix_nano now + 1000000000
   \<and> Encode_Credential test_env (issued\<lparr>vc_Proof := None\<rparr>) = Some pre
   \<and> Sign test_env (Keccak256 test_env pre) [7] = Some sig
   \<and> sig \<noteq> []
   \<and> vc_Proof issued =
         Some \<lparr>vp_Type = ''Secp256k1VerificationKey2018'', vp_Created = Some now,
               vp_ProofValue = Bytes2Hex (butlast sig)\<rparr>
   \<and> vc_ID issued = ''urn:1'' \<and> vc_Issuer issued = ''did:go:issuer1''
   \<and> vc_Type issued = env_base_types test_env @ [''ProofOfAge'']
   \<and> MarshalIndent_Credential test_env issued = Some out"
proof (rule SignClaim_issues)
  show "Parse (env_idchar test_env) ''did:go:issuer1'' = Some test_issuer"
    by (rule test_Parse_issuer)
  show "Parse (env_idchar test_env) ''did:go:subj1''
          = Some \<lparr>did_Method = ''go'', did_ID = ''subj1'', did_Fragment = None\<rparr>"
    by (rule test_Parse_subject)
  show "ParsePrivateKey test_env ''07'' = Some [7]"
    by (simp add: test_env_simps fromHexChar_def)
  show "(if ''{\"age\":21}'' \<noteq> [] then Unmarshal_subject test_env ''{\"age\":21}''
         else Some (Some fmempty))
          = Some (Some (fmupd ''age'' (JNumber 0x4035000000000000) fmempty))"
    by (simp add: test_env_simps)
  show "\<exists>sig. Sign test_env h [7] = Some sig \<and> sig \<noteq> []" for h
    by (simp add: test_env_simps)
qed (simp_all add: test_env_simps)

text \<open>
  Claim C2.  The digest \<open>VerifyClaim\<close> computes over an issued credential with its proof
  cleared is the digest \<open>SignClaim\<close> computed over the credential before the proof was
  added, and signed; it is the same whatever proof is attached.
\<close>

theorem digest_agreement:
  assumes "SignClaim env rpcURL privateKey id' typ issuerID subjectID subjectJSON time_Now
             = Inr (issued, out)"
  shows "\<exists>unsigned acc h sig.
           vc_Proof unsigned = None
         \<and> issued = unsigned\<lparr>vc_Proof := vc_Proof issued\<rparr>
         \<and> SignClaim_digest env unsigned = Some h
         \<and> ParsePrivateKey env privateKey = Some acc
         \<and> Sign env h acc = Some sig
         \<and> map_option vp_ProofValue (vc_Proof issued) = Some (Bytes2Hex (butlast sig))
         \<and> VerifyClaim_digest env issued = Some h
         \<and> (\<forall>prf. VerifyClaim_digest env (unsigned\<lparr>vc_Proof := prf\<rparr>) = Some h)"
proof -
  from assms obtain acc parsed h sig where d:
    "ParsePrivateKey env privateKey = Some acc"
    "SignClaim_digest env
       \<lparr>vc_ID = id', vc_Type = env_base_types env @ [typ], vc_Issuer = issuerID,
        vc_IssuanceDate = Some (Truncate (UTC_of time_Now) Second),
        vc_CredentialSubject = Some (fmupd ''id'' (JString subjectID) parsed),
        vc_Proof = None\<rparr> = Some h"
    "Sign env h acc = Some sig"
    "issued =
       \<lparr>vc_ID = id', vc_Type = env_base_types env @ [typ], vc_Issuer = issuerID,
        vc_IssuanceDate = Some (Truncate (UTC_of time_Now) Second),
        vc_CredentialSubject = Some (fmupd ''id'' (JString subjectID) parsed),
        vc_Proof = Some \<lparr>vp_Type = ''Secp256k1VerificationKey2018'',
                         vp_Created = Some (Truncate (UTC_of time_Now) Second),
                         vp_ProofValue = Bytes2Hex (take (length sig - 1) sig)\<rparr>\<rparr>"
    by (rule SignClaim_InrD)
  have "butlast sig = take (length sig - 1) sig"
    by (rule butlast_conv_take)
  with d show ?thesis
    by (intro exI [of _ "\<lparr>vc_ID = id', vc_Type = env_base_types env @ [typ], vc_Issuer = issuerID,
        vc_IssuanceDate = Some (Truncate (UTC_of time_Now) Second),
        vc_CredentialSubject = Some (fmupd ''id'' (JString subjectID) parsed),
        vc_Proof = None\<rparr>"] exI [of _ acc] exI [of _ h] exI [of _ sig])
      (simp add: digest_without_proof)
qed

theorem digest_agreement_witness:
  "VerifyClaim_digest test_env test_signed = Some [1]
   \<and> SignClaim_digest test_env test_unsigned = Some [1]
   \<and> (\<exists>unsigned h. test_signed = unsigned\<lparr>vc_Proof := vc_Proof test_signed\<rparr>
         \<and> SignClaim_digest test_env unsigned = Some h
         \<and> VerifyClaim_digest test_env test_signed = Some h)"
proof -
  have u: "test_signed\<lparr>vc_Proof := None\<rparr> = test_unsigned"
    by (simp add: test_signed_def test_unsigned_def)
  from digest_agreement [OF test_SignClaim] obtain unsigned h where w:
    "test_signed = unsigned\<lparr>vc_Proof := vc_Proof test_signed\<rparr>"
    "SignClaim_digest test_env unsigned = Some h"
    "VerifyClaim_digest test_env test_signed = Some h"
    by blast
  have "VerifyClaim_digest test_env test_signed = Some [1]"
    by (simp add: VerifyClaim_digest_def u test_env_simps)
  moreover have "SignClaim_digest test_env test_unsigned = Some [1]"
    by (simp add: SignClaim_digest_def test_env_simps)
  ultimately show ?thesis
    using w by blast
qed

section \<open>Verification\<close>

text \<open>
  Claim C6.  For a credential that carries a proof, \<open>verify_keys_with_proof\<close> and
  \<open>VerifyClaim_decoded_with_proof\<close> above give the claim: keys of another type are
  skipped, the keys of the supported type are tried in document order, the first that
  verifies ends the loop, and the outcome is \<open>NotVerified\<close> exactly when none verifies.  A
  credential without a proof is different: with a key of the supported type in the issuer's
  document, reading \<open>cred.Proof.ProofValue\<close> panics.  Here the environment's issuer document
  holds one such key and the credential has no proof.
\<close>

theorem VerifyClaim_without_proof_panics:
  "vc_Proof test_unsigned = None
   \<and> VerifyClaim_decoded test_env ''http://rpc'' ''0xregistry'' test_unsigned =
       ([EvDial ''http://rpc'', EvCallConstant ''0xregistry'' ''hash'' (idBytes32 test_issuer),
         EvHttpGet ''https://ipfs.infura.io:5001/api/v0/cat?arg=QmHash''], Inl PanicNilPointer)"
proof -
  have "vc_Issuer test_unsigned = ''did:go:issuer1''" "vc_Proof test_unsigned = None"
    by (simp_all add: test_unsigned_def)
  then show ?thesis
    by (simp add: VerifyClaim_decoded_def test_readDIDDocument VerifyClaim_digest_def
        test_env_simps test_doc_keys verify_keys_without_proof)
qed

lemma sort_enumeration:
  fixes S :: "string fset"
  assumes "distinct xs" and "set xs = fset S"
  shows "sort xs = sorted_list_of_fset S"
proof -
  have "sorted_list_of_fset S = sorted_list_of_set (set xs)"
    by (simp add: sorted_list_of_fset.rep_eq assms(2))
  also have "\<dots> = sort (remdups xs)"
    by (rule sorted_list_of_set_sort_remdups)
  also have "remdups xs = xs"
    using assms(1) by (rule distinct_remdups_id)
  finally show ?thesis ..
qed

lemma VerifyClaim_report_claims:
  assumes "\<And>m. distinct (map_range env m) \<and> set (map_range env m) = fset (fmdom m)"
  shows "rep_Claims (VerifyClaim_report env cred) =
           (case vc_CredentialSubject cred of
              None \<Rightarrow> []
            | Some m \<Rightarrow> map (\<lambda>k. (k, fmlookup m k)) (sorted_list_of_fset (fmdom m |-| {|''id''|})))"
proof -
  have keys: "sort (map_range env m) = sorted_list_of_fset (fmdom m)" for m
    using assms [of m] by (intro sort_enumeration) simp_all
  show ?thesis
  proof (cases "vc_CredentialSubject cred")
    case None
    then show ?thesis
      by (simp add: VerifyClaim_report_def keys sorted_list_of_fset.rep_eq)
  next
    case (Some m)
    have "map (\<lambda>k. (k, fmlookup (fmdrop ''id'' m) k)) (sorted_list_of_fset (fmdom m |-| {|''id''|}))
          = map (\<lambda>k. (k, fmlookup m k)) (sorted_list_of_fset (fmdom m |-| {|''id''|}))"
      by (rule map_cong) auto
    with Some show ?thesis
      by (simp add: VerifyClaim_report_def keys)
  qed
qed

text \<open>
  Claim C10.  When the issuer's document resolves and one of its keys verifies the
  signature, \<open>VerifyClaim\<close> succeeds whether or not the credential has a subject: a missing
  subject is reported as no subject id and no claims; otherwise the \<open>id\<close> entry is
  reported apart, and the remaining entries are reported with their keys in ascending
  order, \<open>id\<close> not among them.  \<open>range\<close> is assumed to visit every key of a map once.
\<close>

theorem VerifyClaim_reports_subject:
  assumes "readDIDDocument env rpcURL registryAddress (vc_Issuer cred) = (t, Inr doc)"
    and "VerifyClaim_digest env cred = Some h"
    and "verify_keys env h (vc_Proof cred) (doc_PublicKeys doc) = Inr True"
    and "\<And>m. distinct (map_range env m) \<and> set (map_range env m) = fset (fmdom m)"
  shows "\<exists>r. VerifyClaim_decoded env rpcURL registryAddress cred = (t, Inr r)
           \<and> rep_Subject r =
               (case vc_CredentialSubject cred of None \<Rightarrow> None | Some m \<Rightarrow> fmlookup m ''id'')
           \<and> rep_Claims r =
               (case vc_CredentialSubject cred of
                  None \<Rightarrow> []
                | Some m \<Rightarrow>
                    map (\<lambda>k. (k, fmlookup m k)) (sorted_list_of_fset (fmdom m |-| {|''id''|})))
           \<and> sorted (map fst (rep_Claims r))
           \<and> distinct (map fst (rep_Claims r))
           \<and> ''id'' \<notin> set (map fst (rep_Claims r))"
proof -
  let ?r = "VerifyClaim_report env cred"
  have run: "VerifyClaim_decoded env rpcURL registryAddress cred = (t, Inr ?r)"
    using assms(1-3) by (simp add: VerifyClaim_decoded_def)
  have subject: "rep_Subject ?r =
      (case vc_CredentialSubject cred of None \<Rightarrow> None | Some m \<Rightarrow> fmlookup m ''id'')"
    by (simp add: VerifyClaim_report_def split: option.splits)
  note claims = VerifyClaim_report_claims [of env cred, OF assms(4)]
  have fst_claims: "map fst (rep_Claims ?r) =
      (case vc_CredentialSubject cred of
         None \<Rightarrow> [] | Some m \<Rightarrow> sorted_list_of_fset (fmdom m |-| {|''id''|}))"
    unfolding claims by (simp add: comp_def split: option.splits)
  have "sorted (map fst (rep_Claims ?r))" "distinct (map fst (rep_Claims ?r))"
    "''id'' \<notin> set (map fst (rep_Claims ?r))"
    unfolding fst_claims by (simp_all add: sorted_list_of_fset.rep_eq split: option.splits)
  with run subject claims show ?thesis
    by blast
qed

theorem VerifyClaim_reports_subject_witness:
  "(\<exists>r. VerifyClaim_decoded test_env ''http://rpc'' ''0xregistry'' test_bare =
         ([EvDial ''http://rpc'', EvCallConstant ''0xregistry'' ''hash'' (idBytes32 test_issuer),
           EvHttpGet ''https://ipfs.infura.io:5001/api/v0/cat?arg=QmHash''], Inr r)
        \<and> rep_Subject r = None \<and> rep_Claims r = [])
   \<and> (\<exists>r. VerifyClaim_decoded test_env ''http://rpc'' ''0xregistry'' test_signed =
         ([EvDial ''http://rpc'', EvCallConstant ''0xregistry'' ''hash'' (idBytes32 test_issuer),
           EvHttpGet ''https://ipfs.infura.io:5001/api/v0/cat?arg=QmHash''], Inr r)
        \<and> rep_Subject r = Some (JString ''did:go:subj1'')
        \<and> map fst (rep_Claims r) = [''age''])"
proof -
  have bare: "vc_CredentialSubject test_bare = None"
    by (simp add: test_bare_def)
  have subj: "vc_CredentialSubject test_signed = Some test_subject"
    by (simp add: test_signed_def test_unsigned_def)
  have sid: "fmlookup test_subject ''id'' = Some (JString ''did:go:subj1'')"
    by (simp add: test_subject_def)
  have "fmdom test_subject |-| {|''id''|} = {|''age''|}"
    by (auto simp: test_subject_def)
  then have keys: "sorted_list_of_fset (fmdom test_subject |-| {|''id''|}) = [''age'']"
    by (simp add: sorted_list_of_fset.rep_eq)
  from VerifyClaim_reports_subject [OF test_verify_bare test_map_range]
    VerifyClaim_reports_subject [OF test_verify_signed test_map_range]
  show ?thesis
    unfolding bare subj by (auto simp: sid keys)
qed




end
